theory Spec2Isabelle
  imports Main "HOL-Library.Sublist" "HOL-Library.Multiset" "HOL-Library.Extended_Nat"
    "HOL-Library.Word"
begin

section \<open>JavaScript values\<close>

text \<open>
  Strings are byte lists holding the UTF-8 encoding of the JavaScript string; every
  pattern the service tests (\<open>endsWith\<close>, \<open>split\<close>, the slide regular expressions,
  the media-type comparisons) is ASCII, so the tests agree on both representations.
  The Vietnamese literals of the source are spelled out byte by byte.
\<close>

type_synonym bytes = "8 word list"

text \<open>
  A thrown value is either an object carrying \<open>name\<close> and \<open>message\<close> (an \<open>Error\<close>)
  or some other object without a \<open>message\<close> property, such as the \<open>ProgressEvent\<close> a
  \<open>FileReader\<close> rejects with; the latter is kept by its string conversion.
\<close>

datatype thrown = JsError (ename: string) (message: string) | Thrown (rendering: string)

definition newError :: "string \<Rightarrow> thrown" where
  "newError msg = JsError ''Error'' msg"

text \<open>\<open>`${e}`\<close>: \<open>Error.prototype.toString\<close> for errors.\<close>

fun toString :: "thrown \<Rightarrow> string" where
  "toString (JsError n m) = (if n = [] then m else if m = [] then n else n @ '': '' @ m)"
| "toString (Thrown r) = r"

text \<open>\<open>error.message || d\<close>: a missing or empty message is falsy.\<close>

fun messageOr :: "thrown \<Rightarrow> string \<Rightarrow> string" where
  "messageOr (JsError n m) d = (if m = [] then d else m)"
| "messageOr (Thrown r) d = d"

text \<open>\<open>s.endsWith(suf)\<close>\<close>

definition endsWith :: "string \<Rightarrow> string \<Rightarrow> bool" where
  "endsWith s suf = (length suf \<le> length s \<and> drop (length s - length suf) s = suf)"

text \<open>\<open>s.split(c)\<close> for a one-character separator; the result is never empty.\<close>

fun split :: "char \<Rightarrow> string \<Rightarrow> string list" where
  "split c [] = [[]]"
| "split c (x # xs) =
     (if x = c then [] # split c xs
      else (case split c xs of [] \<Rightarrow> [[x]] | w # ws \<Rightarrow> (x # w) # ws))"

text \<open>\<open>xs[i]\<close>, \<open>undefined\<close> out of range.\<close>

fun index :: "'a list \<Rightarrow> nat \<Rightarrow> 'a option" where
  "index [] i = None"
| "index (x # xs) 0 = Some x"
| "index (x # xs) (Suc i) = index xs i"

text \<open>
  \<open>toLowerCase\<close> on the ASCII letters. (JavaScript also lowers letters outside ASCII;
  the only use is the extension lookup of \<open>getMimeFromExt\<close>, whose keys no such letter
  can produce.)
\<close>

definition asciiLower :: "char \<Rightarrow> char" where
  "asciiLower c =
     (case map_of (zip ''ABCDEFGHIJKLMNOPQRSTUVWXYZ'' ''abcdefghijklmnopqrstuvwxyz'') c of
        None \<Rightarrow> c
      | Some l \<Rightarrow> l)"

definition toLowerCase :: "string \<Rightarrow> string" where
  "toLowerCase s = map asciiLower s"

text \<open>
  White space as \<open>String.prototype.trim\<close> sees it (WhiteSpace and LineTerminator of the
  language), each code point in UTF-8.
\<close>

definition whiteSpace :: "string list" where
  "whiteSpace =
     [[CHR 0x09], [CHR 0x0A], [CHR 0x0B], [CHR 0x0C], [CHR 0x0D], [CHR 0x20],
      [CHR 0xC2, CHR 0xA0], [CHR 0xE1, CHR 0x9A, CHR 0x80],
      [CHR 0xE2, CHR 0x80, CHR 0x80], [CHR 0xE2, CHR 0x80, CHR 0x81],
      [CHR 0xE2, CHR 0x80, CHR 0x82], [CHR 0xE2, CHR 0x80, CHR 0x83],
      [CHR 0xE2, CHR 0x80, CHR 0x84], [CHR 0xE2, CHR 0x80, CHR 0x85],
      [CHR 0xE2, CHR 0x80, CHR 0x86], [CHR 0xE2, CHR 0x80, CHR 0x87],
      [CHR 0xE2, CHR 0x80, CHR 0x88], [CHR 0xE2, CHR 0x80, CHR 0x89],
      [CHR 0xE2, CHR 0x80, CHR 0x8A], [CHR 0xE2, CHR 0x80, CHR 0xA8],
      [CHR 0xE2, CHR 0x80, CHR 0xA9], [CHR 0xE2, CHR 0x80, CHR 0xAF],
      [CHR 0xE2, CHR 0x81, CHR 0x9F], [CHR 0xE3, CHR 0x80, CHR 0x80],
      [CHR 0xEF, CHR 0xBB, CHR 0xBF]]"

definition leadingWhiteSpace :: "string \<Rightarrow> nat" where
  "leadingWhiteSpace s =
     (case find (\<lambda>w. prefix w s) whiteSpace of None \<Rightarrow> 0 | Some w \<Rightarrow> length w)"

text \<open>\<open>!s.trim()\<close>: the string is white space only.\<close>

function trimIsEmpty :: "string \<Rightarrow> bool" where
  "trimIsEmpty s =
     (if s = [] then True
      else if leadingWhiteSpace s = 0 then False
      else trimIsEmpty (drop (leadingWhiteSpace s) s))"
  by pat_completeness auto
termination
  by (relation "measure length") auto

declare trimIsEmpty.simps [simp del]

section \<open>The browser and library interfaces\<close>

record jsFile =
  name :: string
  type :: string
  content :: bytes

text \<open>\<open>file.size\<close>\<close>

definition fileSize :: "jsFile \<Rightarrow> nat" where
  "fileSize file = length (content file)"

text \<open>An entry of a loaded archive (a JSZip object): its \<open>dir\<close> flag and \<open>async\<close> reads.\<close>

record zipObject =
  dir :: bool
  asyncBlob :: "thrown + bytes"
  asyncString :: "thrown + string"

text \<open>A workbook as \<open>XLSX.read\<close> returns it.\<close>

record 's workbook =
  SheetNames :: "string list"
  Sheets :: "string \<Rightarrow> 's option"

text \<open>
  Everything outside the service is a field of the environment: the configured key
  and the model call, the \<open>FileReader\<close> reads, the document libraries, the DOM parser.
  \<open>loadAsync\<close> lists the entries in the key order of \<open>contents.files\<close>.
  \<open>xmlTextRuns\<close> is the \<open>textContent\<close> of each \<open>a:t\<close> element of the parsed XML,
  \<open>htmlBodyText\<close> the \<open>textContent\<close> of the parsed HTML body, and \<open>builtinToString\<close>
  the engine's string conversion of a member of \<open>Object.prototype\<close>.
\<close>

record 's env =
  apiKey :: string
  generateContent :: "string \<Rightarrow> string option \<Rightarrow> thrown + string option"
  readAsArrayBuffer :: "jsFile \<Rightarrow> thrown + bytes"
  readAsText :: "jsFile \<Rightarrow> thrown + string"
  readAsDataURL :: "jsFile \<Rightarrow> thrown + string"
  extractRawText :: "bytes \<Rightarrow> thrown + string"
  XLSX_read :: "bytes \<Rightarrow> thrown + 's workbook"
  sheet_to_csv :: "'s option \<Rightarrow> thrown + string"
  loadAsync :: "jsFile \<Rightarrow> thrown + (string \<times> zipObject) list"
  htmlBodyText :: "string \<Rightarrow> string option"
  xmlTextRuns :: "string \<Rightarrow> string list"
  builtinToString :: "string \<Rightarrow> string"

text \<open>
  What a run does besides returning: each entry into the remote adapter and each
  request sent to the model, with media type and payload.
\<close>

datatype event = AdapterCall string "string option" | ModelRequest string "string option"

type_synonym outcome = "(thrown + string) \<times> event list"

section \<open>geminiService.ts\<close>

definition err_prefix :: string where
  "err_prefix = ''L'' @ [CHR 0xE1, CHR 0xBB, CHR 0x97] @ ''i tr'' @ [CHR 0xC3, CHR 0xAD]
     @ ''ch xu'' @ [CHR 0xE1, CHR 0xBA, CHR 0xA5] @ ''t AI: ''"

text \<open>The body of the \<open>try\<close> block of \<open>extractWithGemini\<close>.\<close>

definition geminiAttempt :: "'s env \<Rightarrow> string option \<Rightarrow> string \<Rightarrow> outcome" where
  "geminiAttempt env fileBase64 mimeType =
     (if apiKey env = [] then
        (Inl (newError ''API Key is missing. Please checking your environment configuration.''), [])
      else
        (case generateContent env mimeType fileBase64 of
           Inl e \<Rightarrow> (Inl e, [ModelRequest mimeType fileBase64])
         | Inr text \<Rightarrow>
             (case text of
                None \<Rightarrow> (Inl (newError ''Gemini returned an empty response.''),
                         [ModelRequest mimeType fileBase64])
              | Some t \<Rightarrow>
                  if t = [] then
                    (Inl (newError ''Gemini returned an empty response.''),
                     [ModelRequest mimeType fileBase64])
                  else (Inr t, [ModelRequest mimeType fileBase64]))))"

definition extractWithGemini :: "'s env \<Rightarrow> string option \<Rightarrow> string \<Rightarrow> outcome" where
  "extractWithGemini env fileBase64 mimeType =
     (case geminiAttempt env fileBase64 mimeType of
        (Inl error, tr) \<Rightarrow>
          (Inl (newError (err_prefix @ messageOr error ''Unknown error'')),
           AdapterCall mimeType fileBase64 # tr)
      | (Inr text, tr) \<Rightarrow> (Inr text, AdapterCall mimeType fileBase64 # tr))"

definition supported :: "string list" where
  "supported =
     [''application/pdf'',
      ''image/png'', ''image/jpeg'', ''image/webp'', ''image/heic'', ''image/heif'',
      ''audio/mpeg'', ''audio/mp3'', ''audio/wav'', ''audio/aac'', ''audio/flac'', ''audio/x-m4a'',
      ''video/mp4'', ''video/mpeg'', ''video/mov'', ''video/avi'', ''video/x-flv'', ''video/mpg'',
      ''video/webm'', ''video/wmv'', ''video/3gpp'']"

definition isGeminiSupported :: "string \<Rightarrow> bool" where
  "isGeminiSupported mimeType = (mimeType \<in> set supported)"

section \<open>The file dispatch and the local parsers\<close>

definition err_tooLarge :: string where
  "err_tooLarge = ''File qu'' @ [CHR 0xC3, CHR 0xA1] @ '' l'' @ [CHR 0xE1, CHR 0xBB, CHR 0x9B]
     @ ''n (>20MB) '' @ [CHR 0xC4, CHR 0x91, CHR 0xE1, CHR 0xBB, CHR 0x83] @ '' x''
     @ [CHR 0xE1, CHR 0xBB, CHR 0xAD] @ '' l'' @ [CHR 0xC3, CHR 0xBD] @ '' tr''
     @ [CHR 0xE1, CHR 0xBB, CHR 0xB1] @ ''c ti'' @ [CHR 0xE1, CHR 0xBA, CHR 0xBF] @ ''p tr''
     @ [CHR 0xC3, CHR 0xAA] @ ''n tr'' @ [CHR 0xC3, CHR 0xAC] @ ''nh duy''
     @ [CHR 0xE1, CHR 0xBB, CHR 0x87] @ ''t. Vui l'' @ [CHR 0xC3, CHR 0xB2] @ ''ng n''
     @ [CHR 0xC3, CHR 0xA9] @ ''n ho'' @ [CHR 0xE1, CHR 0xBA, CHR 0xB7] @ ''c c''
     @ [CHR 0xE1, CHR 0xBA, CHR 0xAF] @ ''t nh'' @ [CHR 0xE1, CHR 0xBB, CHR 0x8F] @ '' file.''"

definition err_unsupported :: string where
  "err_unsupported = [CHR 0xC4, CHR 0x90, CHR 0xE1, CHR 0xBB, CHR 0x8B] @ ''nh d''
     @ [CHR 0xE1, CHR 0xBA, CHR 0xA1] @ ''ng file kh'' @ [CHR 0xC3, CHR 0xB4] @ ''ng ''
     @ [CHR 0xC4, CHR 0x91, CHR 0xC6, CHR 0xB0, CHR 0xE1, CHR 0xBB, CHR 0xA3] @ ''c h''
     @ [CHR 0xE1, CHR 0xBB, CHR 0x97] @ '' tr'' @ [CHR 0xE1, CHR 0xBB, CHR 0xA3] @ '': ''"

definition zip_placeholder :: string where
  "zip_placeholder = ''(Kh'' @ [CHR 0xC3, CHR 0xB4] @ ''ng th'' @ [CHR 0xE1, CHR 0xBB, CHR 0x83]
     @ '' tr'' @ [CHR 0xC3, CHR 0xAD] @ ''ch xu'' @ [CHR 0xE1, CHR 0xBA, CHR 0xA5]
     @ ''t file n'' @ [CHR 0xC3, CHR 0xA0] @ ''y trong ZIP: ''"

definition blankPage :: string where
  "blankPage = ''(Trang tr'' @ [CHR 0xE1, CHR 0xBB, CHR 0x91] @ ''ng)'' @ [CHR 0x0A]"

definition noSlideText :: string where
  "noSlideText = ''(Kh'' @ [CHR 0xC3, CHR 0xB4] @ ''ng t'' @ [CHR 0xC3, CHR 0xAC] @ ''m th''
     @ [CHR 0xE1, CHR 0xBA, CHR 0xA5] @ ''y n'' @ [CHR 0xE1, CHR 0xBB, CHR 0x99] @ ''i dung v''
     @ [CHR 0xC4, CHR 0x83] @ ''n b'' @ [CHR 0xE1, CHR 0xBA, CHR 0xA3] @ ''n trong slide)''"

definition err_pptx :: string where
  "err_pptx = ''L'' @ [CHR 0xE1, CHR 0xBB, CHR 0x97] @ ''i '' @ [CHR 0xC4, CHR 0x91, CHR 0xE1,
     CHR 0xBB, CHR 0x8D] @ ''c file PPTX.''"

text \<open>\<open>readFileAsBase64\<close>: the part of the data URL after the first comma.\<close>

definition readFileAsBase64 :: "'s env \<Rightarrow> jsFile \<Rightarrow> thrown + string option" where
  "readFileAsBase64 env file =
     (case readAsDataURL env file of
        Inl e \<Rightarrow> Inl e
      | Inr result \<Rightarrow> Inr (index (split (CHR '','') result) 1))"

text \<open>Branch 2 of \<open>processFile\<close>: the size check, then the remote adapter.\<close>

definition extractRemote :: "'s env \<Rightarrow> jsFile \<Rightarrow> outcome" where
  "extractRemote env file =
     (if fileSize file > 20 * 1024 * 1024 then (Inl (newError err_tooLarge), [])
      else
        (case readFileAsBase64 env file of
           Inl e \<Rightarrow> (Inl e, [])
         | Inr base64 \<Rightarrow> extractWithGemini env base64 (type file)))"

text \<open>Branch 3, Word documents.\<close>

definition extractWord :: "'s env \<Rightarrow> jsFile \<Rightarrow> thrown + string" where
  "extractWord env file =
     (case readAsArrayBuffer env file of
        Inl e \<Rightarrow> Inl e
      | Inr arrayBuffer \<Rightarrow> extractRawText env arrayBuffer)"

text \<open>Branch 3, spreadsheets: the \<open>forEach\<close> over \<open>workbook.SheetNames\<close>.\<close>

fun sheetsLoop :: "'s env \<Rightarrow> 's workbook \<Rightarrow> string list \<Rightarrow> string \<Rightarrow> thrown + string" where
  "sheetsLoop env workbook [] text = Inr text"
| "sheetsLoop env workbook (sheetName # rest) text =
     (case sheet_to_csv env (Sheets workbook sheetName) of
        Inl e \<Rightarrow> Inl e
      | Inr csv \<Rightarrow>
          sheetsLoop env workbook rest
            (text @ ''--- Sheet: '' @ sheetName @ '' ---\<newline>'' @ csv @ ''\<newline>\<newline>''))"

definition extractSheets :: "'s env \<Rightarrow> jsFile \<Rightarrow> thrown + string" where
  "extractSheets env file =
     (case readAsArrayBuffer env file of
        Inl e \<Rightarrow> Inl e
      | Inr arrayBuffer \<Rightarrow>
          (case XLSX_read env arrayBuffer of
             Inl e \<Rightarrow> Inl e
           | Inr workbook \<Rightarrow> sheetsLoop env workbook (SheetNames workbook) []))"

text \<open>Branch 4, plain text and HTML.\<close>

definition extractText :: "'s env \<Rightarrow> jsFile \<Rightarrow> thrown + string" where
  "extractText env file =
     (case readAsText env file of
        Inl e \<Rightarrow> Inl e
      | Inr text \<Rightarrow>
          if type file = ''text/html'' then
            Inr (case htmlBodyText env text of None \<Rightarrow> [] | Some t \<Rightarrow> t)
          else Inr text)"

subsection \<open>Presentation packages\<close>

definition isDigit :: "char \<Rightarrow> bool" where
  "isDigit c = (c \<in> set ''0123456789'')"

text \<open>\<open>/slide(\d+)\.xml/\<close> tried at the start of \<open>s\<close>; the result is the captured group.\<close>

definition slideAt :: "string \<Rightarrow> string option" where
  "slideAt s =
     (if prefix ''slide'' s then
        (let r = drop 5 s; ds = takeWhile isDigit r; rest = dropWhile isDigit r
         in if ds \<noteq> [] \<and> prefix ''.xml'' rest then Some ds else None)
      else None)"

text \<open>\<open>a.match(/slide(\d+)\.xml/)?.[1]\<close>: the leftmost match.\<close>

fun slideMatch :: "string \<Rightarrow> string option" where
  "slideMatch [] = None"
| "slideMatch (c # cs) =
     (case slideAt (c # cs) of Some ds \<Rightarrow> Some ds | None \<Rightarrow> slideMatch cs)"

text \<open>\<open>f.match(/ppt\/slides\/slide\d+\.xml/)\<close>, as a truth value.\<close>

fun slidePathMatch :: "string \<Rightarrow> bool" where
  "slidePathMatch [] = False"
| "slidePathMatch (c # cs) =
     ((prefix ''ppt/slides/'' (c # cs) \<and> slideAt (drop 11 (c # cs)) \<noteq> None) \<or> slidePathMatch cs)"

text \<open>
  The number \<open>parseInt\<close> returns for a run of decimal digits: the integer the digits
  denote (\<open>mathInt\<close>), taken to the nearest double, ties to the even mantissa, and to
  \<open>Infinity\<close> from \<open>2^1024\<close> on. The doubles met here are integers, so a number is a
  natural or \<open>\<infinity>\<close>; below \<open>2^53\<close> the conversion is exact.
\<close>

definition mathInt :: "string \<Rightarrow> nat" where
  "mathInt ds = foldl (\<lambda>a c. 10 * a + (of_char c - 48)) 0 ds"

function bitLength :: "nat \<Rightarrow> nat" where
  "bitLength n = (if n = 0 then 0 else Suc (bitLength (n div 2)))"
  by pat_completeness auto
termination
  by (relation "measure (\<lambda>n. n)") auto

declare bitLength.simps [simp del]

definition toNumber :: "nat \<Rightarrow> enat" where
  "toNumber n =
     (if n < 2 ^ 53 then enat n
      else
        (let e = bitLength n - 53;
             q = n div 2 ^ e;
             r = n mod 2 ^ e;
             half = 2 ^ (e - 1);
             q' = (if half < r \<or> (r = half \<and> odd q) then q + 1 else q)
         in if q' * 2 ^ e < 2 ^ 1024 then enat (q' * 2 ^ e) else \<infinity>))"

definition parseInt :: "string \<Rightarrow> enat" where
  "parseInt ds = toNumber (mathInt ds)"

definition slideNumber :: "string \<Rightarrow> enat" where
  "slideNumber a = parseInt (case slideMatch a of None \<Rightarrow> ''0'' | Some ds \<Rightarrow> ds)"

text \<open>
  The slide entries in processing order: the filter over the keys, then the sort. The
  sort is stable and its comparator is \<open>numA - numB\<close>, whose sign is the order of the two
  numbers; two equal numbers, two infinities included, compare as equal.
\<close>

definition slideFiles :: "(string \<times> zipObject) list \<Rightarrow> (string \<times> zipObject) list" where
  "slideFiles contents =
     sort_key (\<lambda>(f, entry). slideNumber f) (filter (\<lambda>(f, entry). slidePathMatch f) contents)"

text \<open>
  The text one slide contributes to \<open>fullText\<close>. The loop below runs over the sorted
  keys together with the entries \<open>contents.files\<close> holds under them.
\<close>

definition slideBlock :: "'s env \<Rightarrow> string \<Rightarrow> string" where
  "slideBlock env xmlText =
     (let slideText = concat (map (\<lambda>t. t @ '' '') (xmlTextRuns env xmlText))
      in if \<not> trimIsEmpty slideText then slideText @ ''\<newline>'' else blankPage)"

fun slidesLoop :: "'s env \<Rightarrow> (string \<times> zipObject) list \<Rightarrow> string \<Rightarrow> thrown + string" where
  "slidesLoop env [] fullText = Inr fullText"
| "slidesLoop env ((slide, entry) # rest) fullText =
     (case asyncString entry of
        Inl e \<Rightarrow> Inl e
      | Inr xmlText \<Rightarrow> slidesLoop env rest (fullText @ slideBlock env xmlText))"

text \<open>The body of the \<open>try\<close> block of \<open>processPptxAsZip\<close>.\<close>

definition pptxAttempt :: "'s env \<Rightarrow> jsFile \<Rightarrow> thrown + string" where
  "pptxAttempt env file =
     (case loadAsync env file of
        Inl e \<Rightarrow> Inl e
      | Inr contents \<Rightarrow>
          (case slidesLoop env (slideFiles contents) [] of
             Inl e \<Rightarrow> Inl e
           | Inr fullText \<Rightarrow> Inr (if fullText = [] then noSlideText else fullText)))"

definition processPptxAsZip :: "'s env \<Rightarrow> jsFile \<Rightarrow> thrown + string" where
  "processPptxAsZip env file =
     (case pptxAttempt env file of
        Inl e \<Rightarrow> Inl (newError err_pptx)
      | Inr text \<Rightarrow> Inr text)"

subsection \<open>Archives\<close>

text \<open>
  \<open>map[ext]\<close> reads a plain object: besides the six own keys it finds what the object
  inherits from \<open>Object.prototype\<close>, and those values are truthy objects, not strings.
\<close>

datatype jsValue = JsString string | Inherited string

definition mimeMap :: "(string \<times> string) list" where
  "mimeMap =
     [(''png'', ''image/png''), (''jpg'', ''image/jpeg''), (''pdf'', ''application/pdf''),
      (''txt'', ''text/plain''), (''xml'', ''text/xml''), (''json'', ''application/json'')]"

definition objectPrototype :: "string list" where
  "objectPrototype =
     [''constructor'', ''__defineGetter__'', ''__defineSetter__'', ''hasOwnProperty'',
      ''__lookupGetter__'', ''__lookupSetter__'', ''isPrototypeOf'', ''propertyIsEnumerable'',
      ''toString'', ''valueOf'', ''__proto__'', ''toLocaleString'']"

definition getMimeFromExt :: "string \<Rightarrow> jsValue" where
  "getMimeFromExt ext =
     (case map_of mimeMap ext of
        Some v \<Rightarrow> JsString (if v = [] then ''application/octet-stream'' else v)
      | None \<Rightarrow>
          if ext \<in> set objectPrototype then Inherited ext
          else JsString ''application/octet-stream'')"

text \<open>
  \<open>new File([fileData], filename, { type })\<close>: the type option is converted to a
  string; a type with a character outside U+0020..U+007E becomes empty, any other is
  lowered.
\<close>

definition printable :: "char \<Rightarrow> bool" where
  "printable c = ((32::nat) \<le> of_char c \<and> of_char c \<le> (126::nat))"

definition fileType :: "'s env \<Rightarrow> jsValue \<Rightarrow> string" where
  "fileType env v =
     (let t = (case v of JsString s \<Rightarrow> s | Inherited k \<Rightarrow> builtinToString env k)
      in if list_all printable t then toLowerCase t else [])"

definition newFile :: "'s env \<Rightarrow> bytes \<Rightarrow> string \<Rightarrow> jsValue \<Rightarrow> jsFile" where
  "newFile env fileData filename v =
     \<lparr> name = filename, type = fileType env v, content = fileData \<rparr>"

text \<open>The file built for an entry: lines 211 and 212.\<close>

definition subFile :: "'s env \<Rightarrow> string \<Rightarrow> bytes \<Rightarrow> jsFile" where
  "subFile env filename fileData =
     (let ext = toLowerCase (last (split (CHR ''.'') filename))
      in newFile env fileData filename (getMimeFromExt ext))"

text \<open>
  The body of the \<open>try\<close> block for one entry; \<open>rec\<close> is the recursive \<open>processFile\<close>,
  \<open>None\<close> when it does not return.
\<close>

definition zipEntry ::
  "(jsFile \<Rightarrow> outcome option) \<Rightarrow> 's env \<Rightarrow> string \<Rightarrow> zipObject \<Rightarrow> outcome option" where
  "zipEntry rec env filename entry =
     (case asyncBlob entry of
        Inl e \<Rightarrow> Some (Inl e, [])
      | Inr fileData \<Rightarrow> rec (subFile env filename fileData))"

text \<open>What one entry appends to \<open>combinedText\<close>.\<close>

definition entryText :: "string \<Rightarrow> thrown + string \<Rightarrow> string" where
  "entryText filename r =
     ''\<newline>--- FILE: '' @ filename @ '' ---\<newline>'' @
     (case r of
        Inr extracted \<Rightarrow> extracted
      | Inl e \<Rightarrow> zip_placeholder @ toString e @ '')\<newline>'')"

fun zipLoop ::
  "(jsFile \<Rightarrow> outcome option) \<Rightarrow> 's env \<Rightarrow> (string \<times> zipObject) list \<Rightarrow>
   string \<times> event list \<Rightarrow> (string \<times> event list) option" where
  "zipLoop rec env [] acc = Some acc"
| "zipLoop rec env ((filename, entry) # rest) (combinedText, tr) =
     (if dir entry then zipLoop rec env rest (combinedText, tr)
      else
        (case zipEntry rec env filename entry of
           None \<Rightarrow> None
         | Some (r, tr') \<Rightarrow>
             zipLoop rec env rest (combinedText @ entryText filename r, tr @ tr')))"

definition processZipFile ::
  "(jsFile \<Rightarrow> outcome option) \<Rightarrow> 's env \<Rightarrow> jsFile \<Rightarrow> outcome option" where
  "processZipFile rec env file =
     (case loadAsync env file of
        Inl e \<Rightarrow> Some (Inl e, [])
      | Inr contents \<Rightarrow>
          (case zipLoop rec env contents (''--- ARCHIVE: '' @ name file @ '' ---\<newline>'', []) of
             None \<Rightarrow> None
           | Some (combinedText, tr) \<Rightarrow> Some (Inr combinedText, tr)))"

subsection \<open>The dispatch\<close>

text \<open>
  \<open>processFile\<close> calls itself through \<open>processZipFile\<close> once per archive level, and
  nothing bounds the nesting; the first argument is the number of levels allowed, and
  \<open>None\<close> says they did not suffice.
\<close>

primrec processFile :: "nat \<Rightarrow> 's env \<Rightarrow> jsFile \<Rightarrow> outcome option" where
  "processFile 0 env file = None"
| "processFile (Suc n) env file =
     (let mimeType = type file in
      if mimeType = ''application/zip'' \<or> endsWith (name file) ''.zip'' then
        processZipFile (processFile n env) env file
      else if isGeminiSupported mimeType then
        Some (extractRemote env file)
      else if mimeType = ''application/vnd.openxmlformats-officedocument.wordprocessingml.document''
              \<or> endsWith (name file) ''.docx'' then
        Some (extractWord env file, [])
      else if mimeType = ''application/vnd.openxmlformats-officedocument.spreadsheetml.sheet''
              \<or> endsWith (name file) ''.xlsx'' then
        Some (extractSheets env file, [])
      else if mimeType = ''application/vnd.openxmlformats-officedocument.presentationml.presentation''
              \<or> endsWith (name file) ''.pptx'' then
        Some (processPptxAsZip env file, [])
      else if mimeType = ''text/plain'' \<or> mimeType = ''text/html'' \<or> mimeType = ''application/rtf''
              \<or> endsWith (name file) ''.txt'' \<or> endsWith (name file) ''.md'' then
        Some (extractText env file, [])
      else if mimeType = ''application/epub+zip'' \<or> endsWith (name file) ''.epub'' then
        processZipFile (processFile n env) env file
      else Some (Inl (newError (err_unsupported @ mimeType)), []))"

section \<open>Sample environments\<close>

text \<open>A browser in which every read succeeds and no archive or workbook opens.\<close>

definition baseEnv :: "string env" where
  "baseEnv =
     \<lparr> apiKey = ''key'',
       generateContent = (\<lambda>mimeType data. Inr (Some ''remote text'')),
       readAsArrayBuffer = (\<lambda>file. Inr (content file)),
       readAsText = (\<lambda>file. Inr (''text of '' @ name file)),
       readAsDataURL = (\<lambda>file. Inr ''data:application/pdf;base64,AAAA''),
       extractRawText = (\<lambda>arrayBuffer. Inr ''word text''),
       XLSX_read = (\<lambda>arrayBuffer. Inl (newError ''bad workbook'')),
       sheet_to_csv = (\<lambda>sheet. Inr (case sheet of None \<Rightarrow> [] | Some csv \<Rightarrow> csv)),
       loadAsync = (\<lambda>file. Inl (newError ''bad archive'')),
       htmlBodyText = (\<lambda>text. Some text),
       xmlTextRuns = (\<lambda>xmlText. [xmlText]),
       builtinToString = (\<lambda>k.
         if k = ''__proto__'' then ''[object Object]''
         else if k = ''constructor'' then ''function Object() { [native code] }''
         else ''function '' @ k @ ''() { [native code] }'') \<rparr>"

text \<open>An entry that is a file and reads without error.\<close>

definition fileEntry :: "bytes \<Rightarrow> string \<Rightarrow> zipObject" where
  "fileEntry fileData str = \<lparr> dir = False, asyncBlob = Inr fileData, asyncString = Inr str \<rparr>"

text \<open>A presentation package without slide entries.\<close>

definition emptyDeckEnv :: "string env" where
  "emptyDeckEnv =
     baseEnv \<lparr> loadAsync := (\<lambda>file.
       Inr [(''[Content_Types].xml'', fileEntry [1] ''types''),
            (''ppt/presentation.xml'', fileEntry [2] ''presentation'')]) \<rparr>"

text \<open>A workbook with the sheets Q1 and Q2; a sheet is kept as its CSV rendering.\<close>

definition workbookEnv :: "string env" where
  "workbookEnv =
     baseEnv \<lparr> XLSX_read := (\<lambda>arrayBuffer.
       Inr \<lparr> SheetNames = [''Q1'', ''Q2''],
             Sheets = (\<lambda>sheetName. if sheetName = ''Q1'' then Some ''a,b''
                                    else if sheetName = ''Q2'' then Some ''c,d'' else None) \<rparr>) \<rparr>"

text \<open>No configured key; a model that answers with the empty string; a failing transport.\<close>

definition noKeyEnv :: "string env" where
  "noKeyEnv = baseEnv \<lparr> apiKey := [] \<rparr>"

definition emptyReplyEnv :: "string env" where
  "emptyReplyEnv = baseEnv \<lparr> generateContent := (\<lambda>mimeType data. Inr (Some [])) \<rparr>"

definition offlineEnv :: "string env" where
  "offlineEnv =
     baseEnv \<lparr> generateContent := (\<lambda>mimeType data. Inl (JsError ''TypeError'' ''Failed to fetch'')) \<rparr>"


text \<open>An archive of three text files whose second entry cannot be decompressed.\<close>

definition archiveEnv :: "string env" where
  "archiveEnv =
     baseEnv \<lparr> loadAsync := (\<lambda>file.
       if name file = ''docs.zip'' then
         Inr [(''a.txt'', fileEntry [1] ''a''),
              (''b.txt'', \<lparr> dir = False, asyncBlob = Inl (newError ''Corrupted zip''),
                           asyncString = Inl (newError ''Corrupted zip'') \<rparr>),
              (''c.txt'', fileEntry [3] ''c'')]
       else Inl (newError ''bad archive'')) \<rparr>"

text \<open>An archive holding an archive holding one text file.\<close>

definition nestedEnv :: "string env" where
  "nestedEnv =
     baseEnv \<lparr> loadAsync := (\<lambda>file.
       if name file = ''outer.zip'' then Inr [(''inner.zip'', fileEntry [1] [])]
       else if name file = ''inner.zip'' then Inr [(''notes.txt'', fileEntry [2] ''notes'')]
       else Inl (newError ''bad archive'')) \<rparr>"


subsection \<open>Slide names\<close>






section \<open>Properties of the dispatch\<close>

lemma endsWith_suffix: "endsWith s suf = suffix suf s"
proof
  assume "endsWith s suf"
  then have "s = take (length s - length suf) s @ suf"
    by (metis append_take_drop_id endsWith_def)
  then show "suffix suf s" by (metis suffixI)
next
  assume "suffix suf s"
  then obtain p where "s = p @ suf" by (auto simp: suffix_def)
  then show "endsWith s suf" by (simp add: endsWith_def)
qed

lemma endsWith_both:
  assumes "endsWith s a" "endsWith s b" "length a \<le> length b"
  shows "endsWith b a"
proof -
  from assms have s: "suffix a s" "suffix b s" by (simp_all add: endsWith_suffix)
  then have "suffix a b \<or> suffix b a" by (rule suffix_same_cases)
  then have "suffix a b"
  proof
    assume "suffix b a"
    then have "length b \<le> length a" by (rule suffix_length_le)
    with assms(3) have "length a = length b" by simp
    with \<open>suffix b a\<close> have "a = b" by (auto simp: suffix_def)
    then show ?thesis by simp
  qed
  then show ?thesis by (simp add: endsWith_suffix)
qed

lemma supported_not_zip: "isGeminiSupported mimeType \<Longrightarrow> mimeType \<noteq> ''application/zip''"
  by (auto simp: isGeminiSupported_def supported_def)

text \<open>
  C1, as stated, fails: a file whose type is in the remote set but whose name ends with
  \<open>.zip\<close> is taken by the archive branch, which is tested first. Here the archive
  does not open and the file fails, where the remote branch would have returned text.
\<close>

theorem zip_name_overrides_remote_type:
  "isGeminiSupported ''image/png'' \<and>
   processFile 1 baseEnv \<lparr> name = ''photo.zip'', type = ''image/png'', content = [] \<rparr>
     = Some (Inl (newError ''bad archive''), []) \<and>
   extractRemote baseEnv \<lparr> name = ''photo.zip'', type = ''image/png'', content = [] \<rparr>
     = (Inr ''remote text'',
        [AdapterCall ''image/png'' (Some ''AAAA''), ModelRequest ''image/png'' (Some ''AAAA'')]) \<and>
   processFile 1 baseEnv \<lparr> name = ''photo.zip'', type = ''image/png'', content = [] \<rparr>
     \<noteq> Some (extractRemote baseEnv
                \<lparr> name = ''photo.zip'', type = ''image/png'', content = [] \<rparr>)"
  by (simp add: isGeminiSupported_def supported_def baseEnv_def endsWith_def processZipFile_def
      extractRemote_def fileSize_def readFileAsBase64_def extractWithGemini_def geminiAttempt_def)

text \<open>
  C1, amended: for every media type of the remote set and every file name that does not
  end with \<open>.zip\<close>, the dispatch takes the remote branch.
\<close>

theorem remote_types_dispatch:
  assumes "isGeminiSupported (type file)" and "\<not> endsWith (name file) ''.zip''"
  shows "processFile (Suc n) env file = Some (extractRemote env file)"
  using assms supported_not_zip [of "type file"] by simp

text \<open>An image type under a \<open>.docx\<close> name still goes to the remote branch.\<close>

theorem remote_types_dispatch_witness:
  "isGeminiSupported ''image/png'' \<and> \<not> endsWith ''photo.docx'' ''.zip'' \<and>
   processFile 1 baseEnv \<lparr> name = ''photo.docx'', type = ''image/png'', content = [] \<rparr>
     = Some (Inr ''remote text'',
        [AdapterCall ''image/png'' (Some ''AAAA''), ModelRequest ''image/png'' (Some ''AAAA'')])"
  using remote_types_dispatch
    [of "\<lparr> name = ''photo.docx'', type = ''image/png'', content = [] \<rparr>" 0 baseEnv]
  by (simp add: isGeminiSupported_def supported_def baseEnv_def endsWith_def
      extractRemote_def fileSize_def readFileAsBase64_def extractWithGemini_def geminiAttempt_def)

lemma docx_not_zip: "endsWith s ''.docx'' \<Longrightarrow> \<not> endsWith s ''.zip''"
  using endsWith_both [of s "''.zip''" "''.docx''"] by (auto simp: endsWith_def)

text \<open>
  C4: a file whose declared type is empty, or any other type that is neither the archive
  type nor a remote type, and whose name ends with \<open>.docx\<close> is handled as a Word
  document.
\<close>

theorem docx_extension_reachable:
  assumes "type file \<noteq> ''application/zip''" and "\<not> isGeminiSupported (type file)"
    and "endsWith (name file) ''.docx''"
  shows "processFile (Suc n) env file = Some (extractWord env file, [])"
  using assms docx_not_zip [of "name file"] by simp

text \<open>The empty type with \<open>report.docx\<close>.\<close>

theorem docx_extension_reachable_witness:
  "'''' \<noteq> ''application/zip'' \<and> \<not> isGeminiSupported '''' \<and> endsWith ''report.docx'' ''.docx'' \<and>
   processFile 1 baseEnv \<lparr> name = ''report.docx'', type = '''', content = [] \<rparr>
     = Some (Inr ''word text'', [])"
  using docx_extension_reachable
    [of "\<lparr> name = ''report.docx'', type = '''', content = [] \<rparr>" 0 baseEnv]
  by (simp add: isGeminiSupported_def supported_def baseEnv_def endsWith_def extractWord_def)

text \<open>
  C5: a file routed to the remote branch is read and handed to the adapter when it has
  at most \<open>20 * 1024 * 1024\<close> bytes, that size included; with one byte more it fails
  with the size error, and the run records no adapter call and no request.
\<close>

theorem size_ceiling_exact:
  assumes "isGeminiSupported (type file)" and "\<not> endsWith (name file) ''.zip''"
  shows "(fileSize file \<le> 20 * 1024 * 1024 \<longrightarrow>
            processFile (Suc n) env file =
              Some (case readFileAsBase64 env file of
                      Inl e \<Rightarrow> (Inl e, [])
                    | Inr base64 \<Rightarrow> extractWithGemini env base64 (type file))) \<and>
         (20 * 1024 * 1024 + 1 \<le> fileSize file \<longrightarrow>
            processFile (Suc n) env file = Some (Inl (newError err_tooLarge), []))"
  using assms supported_not_zip [of "type file"] by (simp add: extractRemote_def)

text \<open>A PDF of exactly the ceiling, and the same with one byte more.\<close>

theorem size_ceiling_exact_witness:
  "isGeminiSupported ''application/pdf'' \<and> \<not> endsWith ''scan.pdf'' ''.zip'' \<and>
   fileSize \<lparr> name = ''scan.pdf'', type = ''application/pdf'',
              content = replicate (20 * 1024 * 1024) 0 \<rparr> = 20 * 1024 * 1024 \<and>
   processFile 1 baseEnv \<lparr> name = ''scan.pdf'', type = ''application/pdf'',
                            content = replicate (20 * 1024 * 1024) 0 \<rparr>
     = Some (Inr ''remote text'',
         [AdapterCall ''application/pdf'' (Some ''AAAA''),
          ModelRequest ''application/pdf'' (Some ''AAAA'')]) \<and>
   fileSize \<lparr> name = ''scan.pdf'', type = ''application/pdf'',
              content = replicate (20 * 1024 * 1024 + 1) 0 \<rparr> = 20 * 1024 * 1024 + 1 \<and>
   processFile 1 baseEnv \<lparr> name = ''scan.pdf'', type = ''application/pdf'',
                            content = replicate (20 * 1024 * 1024 + 1) 0 \<rparr>
     = Some (Inl (newError err_tooLarge), [])"
  using
    size_ceiling_exact [of "\<lparr> name = ''scan.pdf'', type = ''application/pdf'',
       content = replicate (20 * 1024 * 1024) 0 \<rparr>" 0 baseEnv]
    size_ceiling_exact [of "\<lparr> name = ''scan.pdf'', type = ''application/pdf'',
       content = replicate (20 * 1024 * 1024 + 1) 0 \<rparr>" 0 baseEnv]
  by (simp add: isGeminiSupported_def supported_def baseEnv_def endsWith_def
      extractRemote_def fileSize_def readFileAsBase64_def extractWithGemini_def geminiAttempt_def)


section \<open>Properties of the local parsers\<close>

text \<open>
  C7, as stated, fails: for a package without slide entries the extractor returns the
  Vietnamese literal of the source, not the English sentence.
\<close>

theorem no_slides_marker_is_not_english:
  "processPptxAsZip emptyDeckEnv \<lparr> name = ''deck.pptx'', type = '''', content = [] \<rparr>
     = Inr noSlideText \<and>
   noSlideText \<noteq> ''(no text content found in slides)''"
  by (simp add: processPptxAsZip_def pptxAttempt_def emptyDeckEnv_def baseEnv_def slideFiles_def
      slideAt_def noSlideText_def)

text \<open>
  C7, amended: a presentation package that opens and has no entry matching the slide
  pattern yields the literal \<open>noSlideText\<close>, the Vietnamese sentence the source returns
  when \<open>fullText\<close> is empty.
\<close>

theorem no_slides_marker:
  assumes "loadAsync env file = Inr contents"
    and "\<forall>(f, entry) \<in> set contents. \<not> slidePathMatch f"
  shows "processPptxAsZip env file = Inr noSlideText"
proof -
  from assms(2) have "filter (\<lambda>(f, entry). slidePathMatch f) contents = []"
    by (auto simp: filter_empty_conv)
  then have "slideFiles contents = []" by (simp add: slideFiles_def)
  with assms(1) show ?thesis by (simp add: processPptxAsZip_def pptxAttempt_def)
qed

text \<open>A package holding only the content types and the presentation part.\<close>

theorem no_slides_marker_witness:
  "loadAsync emptyDeckEnv \<lparr> name = ''deck.pptx'', type = '''', content = [] \<rparr>
     = Inr [(''[Content_Types].xml'', fileEntry [1] ''types''),
            (''ppt/presentation.xml'', fileEntry [2] ''presentation'')] \<and>
   \<not> slidePathMatch ''[Content_Types].xml'' \<and> \<not> slidePathMatch ''ppt/presentation.xml'' \<and>
   processPptxAsZip emptyDeckEnv \<lparr> name = ''deck.pptx'', type = '''', content = [] \<rparr>
     = Inr noSlideText"
  using no_slides_marker
    [of emptyDeckEnv "\<lparr> name = ''deck.pptx'', type = '''', content = [] \<rparr>"
        "[(''[Content_Types].xml'', fileEntry [1] ''types''),
          (''ppt/presentation.xml'', fileEntry [2] ''presentation'')]"]
  by (simp add: emptyDeckEnv_def baseEnv_def slideAt_def)

lemma sheetsLoop_closed:
  "\<forall>n \<in> set names. sheet_to_csv env (Sheets workbook n) = Inr (csv n) \<Longrightarrow>
   sheetsLoop env workbook names acc =
     Inr (acc @ concat (map (\<lambda>n. ''--- Sheet: '' @ n @ '' ---\<newline>'' @ csv n @ ''\<newline>\<newline>'') names))"
  by (induction names arbitrary: acc) auto

text \<open>
  C8: when the workbook reads and every sheet renders, the spreadsheet branch returns, for
  each name of \<open>SheetNames\<close> in order, the header \<open>--- Sheet: name ---\<close>, the CSV
  rendering of that sheet and an empty line.
\<close>

theorem sheets_in_declared_order:
  assumes "readAsArrayBuffer env file = Inr arrayBuffer"
    and "XLSX_read env arrayBuffer = Inr workbook"
    and "\<forall>n \<in> set (SheetNames workbook). sheet_to_csv env (Sheets workbook n) = Inr (csv n)"
  shows "extractSheets env file =
     Inr (concat (map (\<lambda>n. ''--- Sheet: '' @ n @ '' ---\<newline>'' @ csv n @ ''\<newline>\<newline>'')
            (SheetNames workbook)))"
  using assms sheetsLoop_closed [of "SheetNames workbook" env workbook csv "[]"]
  by (simp add: extractSheets_def)

text \<open>The sheets Q1 and Q2, through the dispatch.\<close>

theorem sheets_in_declared_order_witness:
  "readAsArrayBuffer workbookEnv \<lparr> name = ''sales.xlsx'', type = '''', content = [7] \<rparr> = Inr [7] \<and>
   processFile 1 workbookEnv \<lparr> name = ''sales.xlsx'', type = '''', content = [7] \<rparr> =
     Some (Inr (''--- Sheet: Q1 ---\<newline>a,b\<newline>\<newline>'' @ ''--- Sheet: Q2 ---\<newline>c,d\<newline>\<newline>''), [])"
  using sheets_in_declared_order
    [of workbookEnv "\<lparr> name = ''sales.xlsx'', type = '''', content = [7] \<rparr>" "[7]"
        "\<lparr> SheetNames = [''Q1'', ''Q2''],
           Sheets = (\<lambda>sheetName. if sheetName = ''Q1'' then Some ''a,b''
                                  else if sheetName = ''Q2'' then Some ''c,d'' else None) \<rparr>"
        "\<lambda>n. if n = ''Q1'' then ''a,b'' else ''c,d''"]
  by (simp add: workbookEnv_def baseEnv_def isGeminiSupported_def supported_def endsWith_def)

text \<open>
  C9 at the extension \<open>constructor\<close>: the lookup returns the inherited member of
  \<open>Object.prototype\<close>, not the default, and the entry's file gets the string conversion
  of that function as its type.
\<close>

theorem inherited_key_is_not_octet_stream:
  "getMimeFromExt ''constructor'' = Inherited ''constructor'' \<and>
   getMimeFromExt ''constructor'' \<noteq> JsString ''application/octet-stream'' \<and>
   type (subFile baseEnv ''notes.constructor'' []) = ''function object() { [native code] }''"
  by (simp add: getMimeFromExt_def mimeMap_def objectPrototype_def subFile_def newFile_def
      fileType_def baseEnv_def toLowerCase_def asciiLower_def printable_def)

text \<open>Away from the inherited names the lookup is the six keys and the default.\<close>

lemma getMimeFromExt_own_or_default:
  "ext \<notin> set objectPrototype \<Longrightarrow>
   getMimeFromExt ext =
     JsString (if ext = ''png'' then ''image/png'' else if ext = ''jpg'' then ''image/jpeg''
       else if ext = ''pdf'' then ''application/pdf'' else if ext = ''txt'' then ''text/plain''
       else if ext = ''xml'' then ''text/xml'' else if ext = ''json'' then ''application/json''
       else ''application/octet-stream'')"
  by (simp add: getMimeFromExt_def mimeMap_def)























section \<open>Properties of the remote adapter\<close>

text \<open>
  C10: whenever the adapter fails, it throws a new error whose message is the prefix
  followed by the message of the error raised inside the \<open>try\<close> block (by
  \<open>Unknown error\<close> when that error has no message or an empty one); this holds for the
  missing key and for the empty response as for a failure of the model call.
\<close>

theorem adapter_failures_prefixed:
  "(\<forall>e. fst (extractWithGemini env fileBase64 mimeType) = Inl e \<longrightarrow>
      (\<exists>u. fst (geminiAttempt env fileBase64 mimeType) = Inl u \<and>
           ename e = ''Error'' \<and>
           prefix (err_prefix @ (case u of JsError n msg \<Rightarrow> msg | Thrown r \<Rightarrow> [])) (message e) \<and>
           message e = err_prefix @ messageOr u ''Unknown error'')) \<and>
   (apiKey env = [] \<longrightarrow>
      fst (extractWithGemini env fileBase64 mimeType) =
        Inl (newError (err_prefix @
          ''API Key is missing. Please checking your environment configuration.''))) \<and>
   (apiKey env \<noteq> [] \<and> generateContent env mimeType fileBase64 \<in> {Inr None, Inr (Some [])} \<longrightarrow>
      fst (extractWithGemini env fileBase64 mimeType) =
        Inl (newError (err_prefix @ ''Gemini returned an empty response.''))) \<and>
   (\<forall>u. apiKey env \<noteq> [] \<and> generateContent env mimeType fileBase64 = Inl u \<longrightarrow>
      fst (extractWithGemini env fileBase64 mimeType) =
        Inl (newError (err_prefix @ messageOr u ''Unknown error'')))"
proof (intro conjI allI impI)
  fix e
  assume a: "fst (extractWithGemini env fileBase64 mimeType) = Inl e"
  obtain r tr where g: "geminiAttempt env fileBase64 mimeType = (r, tr)"
    by (cases "geminiAttempt env fileBase64 mimeType")
  show "\<exists>u. fst (geminiAttempt env fileBase64 mimeType) = Inl u \<and> ename e = ''Error'' \<and>
           prefix (err_prefix @ (case u of JsError n msg \<Rightarrow> msg | Thrown r \<Rightarrow> [])) (message e) \<and>
           message e = err_prefix @ messageOr u ''Unknown error''"
  proof (cases r)
    case (Inl u)
    with a g have e: "e = newError (err_prefix @ messageOr u ''Unknown error'')"
      by (simp add: extractWithGemini_def)
    have "prefix (err_prefix @ (case u of JsError n msg \<Rightarrow> msg | Thrown r \<Rightarrow> []))
            (err_prefix @ messageOr u ''Unknown error'')"
      by (cases u) auto
    with e g Inl show ?thesis by (simp add: newError_def)
  next
    case (Inr t)
    with a g show ?thesis by (simp add: extractWithGemini_def)
  qed
next
  assume "apiKey env = []"
  then show "fst (extractWithGemini env fileBase64 mimeType) =
        Inl (newError (err_prefix @
          ''API Key is missing. Please checking your environment configuration.''))"
    by (simp add: extractWithGemini_def geminiAttempt_def newError_def)
next
  assume "apiKey env \<noteq> [] \<and> generateContent env mimeType fileBase64 \<in> {Inr None, Inr (Some [])}"
  then show "fst (extractWithGemini env fileBase64 mimeType) =
        Inl (newError (err_prefix @ ''Gemini returned an empty response.''))"
    by (auto simp add: extractWithGemini_def geminiAttempt_def newError_def)
next
  fix u
  assume "apiKey env \<noteq> [] \<and> generateContent env mimeType fileBase64 = Inl u"
  then show "fst (extractWithGemini env fileBase64 mimeType) =
        Inl (newError (err_prefix @ messageOr u ''Unknown error''))"
    by (simp add: extractWithGemini_def geminiAttempt_def)
qed

text \<open>The three failures, each at a concrete environment.\<close>

theorem adapter_failures_prefixed_witness:
  "apiKey noKeyEnv = [] \<and>
   fst (extractWithGemini noKeyEnv (Some ''AAAA'') ''image/png'') =
     Inl (JsError ''Error'' (err_prefix @
       ''API Key is missing. Please checking your environment configuration.'')) \<and>
   generateContent emptyReplyEnv ''image/png'' (Some ''AAAA'') = Inr (Some []) \<and>
   fst (extractWithGemini emptyReplyEnv (Some ''AAAA'') ''image/png'') =
     Inl (JsError ''Error'' (err_prefix @ ''Gemini returned an empty response.'')) \<and>
   generateContent offlineEnv ''image/png'' (Some ''AAAA'') =
     Inl (JsError ''TypeError'' ''Failed to fetch'') \<and>
   fst (extractWithGemini offlineEnv (Some ''AAAA'') ''image/png'') =
     Inl (JsError ''Error'' (err_prefix @ ''Failed to fetch''))"
  using adapter_failures_prefixed [of noKeyEnv "Some ''AAAA''" "''image/png''"]
    adapter_failures_prefixed [of emptyReplyEnv "Some ''AAAA''" "''image/png''"]
    adapter_failures_prefixed [of offlineEnv "Some ''AAAA''" "''image/png''"]
  by (simp add: noKeyEnv_def emptyReplyEnv_def offlineEnv_def baseEnv_def newError_def)

section \<open>Properties of the archive expander\<close>

text \<open>
  The loop over the entries returns as soon as every entry does, and then the text it
  appended holds the block of each entry that is not a directory.
\<close>

lemma zipLoop_total:
  assumes "\<forall>(f, e) \<in> set contents. \<not> dir e \<longrightarrow> zipEntry rec env f e \<noteq> None"
  shows "\<exists>t tr'. zipLoop rec env contents (t0, tr0) = Some (t0 @ t, tr0 @ tr') \<and>
           (\<forall>(f, e) \<in> set contents. \<not> dir e \<longrightarrow>
              (\<forall>r tr. zipEntry rec env f e = Some (r, tr) \<longrightarrow> sublist (entryText f r) t))"
  using assms
proof (induction contents arbitrary: t0 tr0)
  case Nil
  then show ?case by simp
next
  case (Cons x rest)
  obtain f e where x: "x = (f, e)" by (cases x)
  from Cons.prems have rest: "\<forall>(f, e) \<in> set rest. \<not> dir e \<longrightarrow> zipEntry rec env f e \<noteq> None"
    by simp
  show ?case
  proof (cases "dir e")
    case True
    from Cons.IH [OF rest, of t0 tr0] True x show ?thesis by auto
  next
    case False
    with Cons.prems x obtain r tr1 where z: "zipEntry rec env f e = Some (r, tr1)"
      by (cases "zipEntry rec env f e") auto
    from Cons.IH [OF rest, of "t0 @ entryText f r" "tr0 @ tr1"]
    obtain t tr' where
      loop: "zipLoop rec env rest (t0 @ entryText f r, tr0 @ tr1)
               = Some ((t0 @ entryText f r) @ t, (tr0 @ tr1) @ tr')"
      and subs: "\<forall>(f, e) \<in> set rest. \<not> dir e \<longrightarrow>
              (\<forall>r tr. zipEntry rec env f e = Some (r, tr) \<longrightarrow> sublist (entryText f r) t)"
      by blast
    have "zipLoop rec env (x # rest) (t0, tr0) = Some (t0 @ (entryText f r @ t), tr0 @ (tr1 @ tr'))"
      using x False z loop by simp
    moreover have "\<forall>(f', e') \<in> set (x # rest). \<not> dir e' \<longrightarrow>
              (\<forall>r' tr. zipEntry rec env f' e' = Some (r', tr) \<longrightarrow>
                 sublist (entryText f' r') (entryText f r @ t))"
    proof -
      have "sublist (entryText f r) (entryText f r @ t)" by simp
      moreover have "\<And>y. sublist y t \<Longrightarrow> sublist y (entryText f r @ t)"
        by (metis sublist_append)
      ultimately show ?thesis using x z subs by auto
    qed
    ultimately show ?thesis by blast
  qed
qed

lemma processZipFile_total:
  assumes "loadAsync env file = Inr contents"
    and "\<forall>(f, e) \<in> set contents. \<not> dir e \<longrightarrow> zipEntry rec env f e \<noteq> None"
  shows "\<exists>combined tr. processZipFile rec env file = Some (Inr combined, tr) \<and>
           (\<forall>(f, e) \<in> set contents. \<not> dir e \<longrightarrow>
              (\<forall>r tr'. zipEntry rec env f e = Some (r, tr') \<longrightarrow> sublist (entryText f r) combined))"
proof -
  let ?h = "''--- ARCHIVE: '' @ name file @ '' ---\<newline>''"
  from zipLoop_total [OF assms(2), of ?h "[]"]
  obtain t tr' where loop: "zipLoop rec env contents (?h, []) = Some (?h @ t, [] @ tr')"
    and subs: "\<forall>(f, e) \<in> set contents. \<not> dir e \<longrightarrow>
              (\<forall>r tr. zipEntry rec env f e = Some (r, tr) \<longrightarrow> sublist (entryText f r) t)"
    by blast
  have "processZipFile rec env file = Some (Inr (?h @ t), tr')"
    using assms(1) loop by (simp add: processZipFile_def)
  moreover have "\<And>y. sublist y t \<Longrightarrow> sublist y (?h @ t)"
    by (metis sublist_append)
  ultimately show ?thesis using subs by blast
qed


text \<open>
  C2: for an archive that opens, whose entries each either yield text or fail, the
  dispatch succeeds with a combined text that holds, under its \<open>--- FILE\<close> header,
  the extracted text of every entry that succeeded and, for every entry that failed, the
  placeholder line with the string conversion of the error.
\<close>

theorem archive_entry_isolation:
  assumes "type file = ''application/zip'' \<or> endsWith (name file) ''.zip''"
    and "loadAsync env file = Inr contents"
    and "\<forall>(filename, entry) \<in> set contents.
           \<not> dir entry \<longrightarrow> zipEntry (processFile n env) env filename entry \<noteq> None"
  shows "\<exists>combined tr. processFile (Suc n) env file = Some (Inr combined, tr) \<and>
           (\<forall>(filename, entry) \<in> set contents. \<not> dir entry \<longrightarrow>
              (\<forall>r tr'. zipEntry (processFile n env) env filename entry = Some (r, tr') \<longrightarrow>
                 (case r of
                    Inr extracted \<Rightarrow>
                      sublist (''\<newline>--- FILE: '' @ filename @ '' ---\<newline>'' @ extracted) combined
                  | Inl e \<Rightarrow>
                      sublist (''\<newline>--- FILE: '' @ filename @ '' ---\<newline>'' @
                               zip_placeholder @ toString e @ '')\<newline>'') combined)))"
proof -
  from processZipFile_total [OF assms(2) assms(3)]
  obtain combined tr where
    res: "processZipFile (processFile n env) env file = Some (Inr combined, tr)"
    and subs: "\<forall>(f, e) \<in> set contents. \<not> dir e \<longrightarrow>
              (\<forall>r tr'. zipEntry (processFile n env) env f e = Some (r, tr') \<longrightarrow>
                 sublist (entryText f r) combined)"
    by blast
  from assms(1) res have "processFile (Suc n) env file = Some (Inr combined, tr)"
    by auto
  moreover have "\<forall>(filename, entry) \<in> set contents. \<not> dir entry \<longrightarrow>
              (\<forall>r tr'. zipEntry (processFile n env) env filename entry = Some (r, tr') \<longrightarrow>
                 (case r of
                    Inr extracted \<Rightarrow>
                      sublist (''\<newline>--- FILE: '' @ filename @ '' ---\<newline>'' @ extracted) combined
                  | Inl e \<Rightarrow>
                      sublist (''\<newline>--- FILE: '' @ filename @ '' ---\<newline>'' @
                               zip_placeholder @ toString e @ '')\<newline>'') combined))"
  proof (intro ballI, clarify)
    fix filename entry r tr'
    assume "(filename, entry) \<in> set contents" "\<not> dir entry"
      "zipEntry (processFile n env) env filename entry = Some (r, tr')"
    with subs have "sublist (entryText filename r) combined" by blast
    then show "case r of
                    Inr extracted \<Rightarrow>
                      sublist (''\<newline>--- FILE: '' @ filename @ '' ---\<newline>'' @ extracted) combined
                  | Inl e \<Rightarrow>
                      sublist (''\<newline>--- FILE: '' @ filename @ '' ---\<newline>'' @
                               zip_placeholder @ toString e @ '')\<newline>'') combined"
      by (cases r) (simp_all add: entryText_def)
  qed
  ultimately show ?thesis by blast
qed

text \<open>Evaluation of the sample archives.\<close>

lemmas entry_eval =
  zipEntry_def subFile_def newFile_def fileType_def getMimeFromExt_def mimeMap_def
  objectPrototype_def toLowerCase_def asciiLower_def printable_def endsWith_def
  isGeminiSupported_def supported_def extractText_def fileEntry_def

lemma archive_sample_entries:
  "zipEntry (processFile 1 archiveEnv) archiveEnv ''a.txt'' (fileEntry [1] ''a'')
     = Some (Inr ''text of a.txt'', [])"
  "zipEntry (processFile 1 archiveEnv) archiveEnv ''b.txt''
     \<lparr> dir = False, asyncBlob = Inl (newError ''Corrupted zip''),
       asyncString = Inl (newError ''Corrupted zip'') \<rparr>
     = Some (Inl (newError ''Corrupted zip''), [])"
  "zipEntry (processFile 1 archiveEnv) archiveEnv ''c.txt'' (fileEntry [3] ''c'')
     = Some (Inr ''text of c.txt'', [])"
  by (simp_all add: entry_eval archiveEnv_def baseEnv_def)

text \<open>Three entries, the second one corrupt.\<close>

theorem archive_entry_isolation_witness:
  "loadAsync archiveEnv \<lparr> name = ''docs.zip'', type = ''application/zip'', content = [] \<rparr> =
     Inr [(''a.txt'', fileEntry [1] ''a''),
          (''b.txt'', \<lparr> dir = False, asyncBlob = Inl (newError ''Corrupted zip''),
                       asyncString = Inl (newError ''Corrupted zip'') \<rparr>),
          (''c.txt'', fileEntry [3] ''c'')] \<and>
   (\<exists>combined tr.
      processFile 2 archiveEnv \<lparr> name = ''docs.zip'', type = ''application/zip'', content = [] \<rparr>
        = Some (Inr combined, tr) \<and>
      sublist (''\<newline>--- FILE: a.txt ---\<newline>'' @ ''text of a.txt'') combined \<and>
      sublist (''\<newline>--- FILE: b.txt ---\<newline>'' @ zip_placeholder @ ''Error: Corrupted zip'' @ '')\<newline>'')
        combined \<and>
      sublist (''\<newline>--- FILE: c.txt ---\<newline>'' @ ''text of c.txt'') combined)"
proof -
  let ?file = "\<lparr> name = ''docs.zip'', type = ''application/zip'', content = [] \<rparr>"
  let ?bad = "\<lparr> dir = False, asyncBlob = Inl (newError ''Corrupted zip''),
                asyncString = Inl (newError ''Corrupted zip'') \<rparr>"
  let ?contents = "[(''a.txt'', fileEntry [1] ''a''), (''b.txt'', ?bad), (''c.txt'', fileEntry [3] ''c'')]"
  have route: "type ?file = ''application/zip'' \<or> endsWith (name ?file) ''.zip''"
    by simp
  have opened: "loadAsync archiveEnv ?file = Inr ?contents"
    by (simp add: archiveEnv_def)
  have returns: "\<forall>(filename, entry) \<in> set ?contents.
           \<not> dir entry \<longrightarrow> zipEntry (processFile (Suc 0) archiveEnv) archiveEnv filename entry \<noteq> None"
    using archive_sample_entries by simp
  from archive_entry_isolation [OF route opened returns]
  obtain combined tr where
    res: "processFile (Suc (Suc 0)) archiveEnv ?file = Some (Inr combined, tr)"
    and subs: "\<forall>(filename, entry) \<in> set ?contents. \<not> dir entry \<longrightarrow>
              (\<forall>r tr'. zipEntry (processFile (Suc 0) archiveEnv) archiveEnv filename entry = Some (r, tr') \<longrightarrow>
                 (case r of
                    Inr extracted \<Rightarrow>
                      sublist (''\<newline>--- FILE: '' @ filename @ '' ---\<newline>'' @ extracted) combined
                  | Inl e \<Rightarrow>
                      sublist (''\<newline>--- FILE: '' @ filename @ '' ---\<newline>'' @
                               zip_placeholder @ toString e @ '')\<newline>'') combined))"
    by blast
  from subs archive_sample_entries
  have "sublist (''\<newline>--- FILE: a.txt ---\<newline>'' @ ''text of a.txt'') combined"
    and "sublist (''\<newline>--- FILE: b.txt ---\<newline>'' @ zip_placeholder @ ''Error: Corrupted zip'' @ '')\<newline>'')
        combined"
    and "sublist (''\<newline>--- FILE: c.txt ---\<newline>'' @ ''text of c.txt'') combined"
    by (simp_all add: fileEntry_def newError_def)
  with res opened show ?thesis
    by (simp add: numeral_2_eq_2)
qed

lemma archive_sample_text:
  "processFile 2 archiveEnv \<lparr> name = ''docs.zip'', type = ''application/zip'', content = [] \<rparr> =
     Some (Inr (''--- ARCHIVE: docs.zip ---\<newline>'' @
                ''\<newline>--- FILE: a.txt ---\<newline>'' @ ''text of a.txt'' @
                ''\<newline>--- FILE: b.txt ---\<newline>'' @ zip_placeholder @ ''Error: Corrupted zip)\<newline>'' @
                ''\<newline>--- FILE: c.txt ---\<newline>'' @ ''text of c.txt''), [])"
  using archive_sample_entries
  by (simp add: numeral_2_eq_2 processZipFile_def archiveEnv_def entryText_def newError_def
      fileEntry_def)


lemma split_nonempty: "split c s \<noteq> []"
  by (induction s) (auto split: list.splits)










lemma nested_sample_text:
  "processFile 3 nestedEnv \<lparr> name = ''outer.zip'', type = ''application/zip'', content = [] \<rparr> =
     Some (Inr (''--- ARCHIVE: outer.zip ---\<newline>'' @
                ''\<newline>--- FILE: inner.zip ---\<newline>'' @
                ''--- ARCHIVE: inner.zip ---\<newline>'' @
                ''\<newline>--- FILE: notes.txt ---\<newline>'' @ ''text of notes.txt''), [])"
  by (simp add: numeral_3_eq_3 processZipFile_def nestedEnv_def baseEnv_def entryText_def
      entry_eval)




end
